theory Spec2Isabelle
  imports Complex_Main "HOL-Library.Char_ord" "HOL-Library.List_Lexorder" "HOL-Library.Multiset"
    "HOL-Library.Word"
begin

section \<open>Source adapters (data\_Ingestion)\<close>

subsection \<open>Exceptions\<close>

text \<open>
  A Python exception is a class together with its message. \<open>FileNotFoundError\<close> and the
  plain \<open>Exception\<close> are the two classes the adapters raise themselves; \<open>LibraryError\<close>
  stands for any other subclass of \<open>Exception\<close> raised inside pandas or requests (class name
  and message); \<open>UnboundLocalError\<close> is what reading a local variable that was never
  assigned raises. All of them are subclasses of \<open>Exception\<close>, so \<open>except Exception\<close>
  catches each one.
\<close>

datatype exc =
    FileNotFoundError string
  | Exception string
  | LibraryError string string
  | UnboundLocalError string

text \<open>\<open>str(e)\<close>, as the f-strings of the source format an exception.\<close>

fun str :: "exc \<Rightarrow> string" where
  "str (FileNotFoundError m) = m"
| "str (Exception m) = m"
| "str (LibraryError c m) = m"
| "str (UnboundLocalError m) = m"

subsection \<open>excel\_ingestor.py\<close>

text \<open>
  The \<open>sheet_name\<close> argument of \<open>load_excel_data\<close>: \<open>None\<close>, a sheet name or a sheet
  index. \<open>truthy\<close> is Python's truth value of it, as \<open>if sheet_name:\<close> tests it.
\<close>

datatype selector = SNone | SName string | SIndex int

fun truthy :: "selector \<Rightarrow> bool" where
  "truthy SNone = False"
| "truthy (SName s) = (s \<noteq> [])"
| "truthy (SIndex i) = (i \<noteq> 0)"

text \<open>
  What is on disk under a path: a workbook (its sheets in order, each a name and a
  data frame), or a file that pandas cannot parse (with the exception pandas raises on it).
  The file system maps a path to its file; \<open>os.path.exists\<close> asks whether it is there.
\<close>

datatype 'df excel_file = Workbook "(string \<times> 'df) list" | Corrupt exc

type_synonym 'df filesystem = "string \<rightharpoonup> 'df excel_file"

definition path_exists :: "'df filesystem \<Rightarrow> string \<Rightarrow> bool" where
  "path_exists fs filepath = (fs filepath \<noteq> None)"

text \<open>
  The value \<open>pd.read_excel\<close> returns: one data frame when a sheet is selected, a dict from
  sheet name to data frame when \<open>sheet_name=None\<close>.
\<close>

datatype 'df excel_data = OneSheet 'df | AllSheets "(string \<times> 'df) list"

text \<open>
  \<open>pd.read_excel(filepath, sheet_name=...)\<close> as pandas documents it: \<open>None\<close> reads every
  sheet, a string selects the sheet of that name, an integer the sheet at that position;
  a sheet that is not there and a file that does not parse raise.
\<close>

definition read_excel :: "'df filesystem \<Rightarrow> string \<Rightarrow> selector \<Rightarrow> exc + 'df excel_data" where
  "read_excel fs filepath sheet_name =
     (case fs filepath of
        None \<Rightarrow> Inl (FileNotFoundError filepath)
      | Some (Corrupt e) \<Rightarrow> Inl e
      | Some (Workbook sheets) \<Rightarrow>
          (case sheet_name of
             SNone \<Rightarrow> Inr (AllSheets sheets)
           | SName n \<Rightarrow>
               (case map_of sheets n of
                  None \<Rightarrow> Inl (LibraryError ''ValueError'' (''Worksheet named '' @ n @ '' not found''))
                | Some df \<Rightarrow> Inr (OneSheet df))
           | SIndex i \<Rightarrow>
               (if 0 \<le> i \<and> i < int (length sheets)
                then Inr (OneSheet (snd (sheets ! nat i)))
                else Inl (LibraryError ''ValueError'' ''Worksheet index out of range''))))"

text \<open>
  \<open>load_excel_data(filepath, sheet_name=None)\<close>: the existence check raises
  \<open>FileNotFoundError\<close>; every exception of the read is caught and raised again as a plain
  \<open>Exception\<close> whose message holds the message of the cause.
\<close>

definition load_excel_data :: "'df filesystem \<Rightarrow> string \<Rightarrow> selector \<Rightarrow> exc + 'df excel_data" where
  "load_excel_data fs filepath sheet_name =
     (if \<not> path_exists fs filepath
      then Inl (FileNotFoundError (''File not found: '' @ filepath))
      else
        (case (if truthy sheet_name
               then read_excel fs filepath sheet_name
               else read_excel fs filepath SNone) of
           Inr df \<Rightarrow> Inr df
         | Inl e \<Rightarrow> Inl (Exception (''Error loading Excel file: '' @ str e))))"

subsection \<open>api\_ingestor.py\<close>

text \<open>
  What \<open>requests.get\<close> on the catalog URL comes to: a transport failure (a
  \<open>RequestException\<close>, with its message), or a response with a status code and a body
  that decodes to a list of products or does not decode (requests raises its
  \<open>JSONDecodeError\<close>, a \<open>RequestException\<close> too).
\<close>

datatype 'p http = TransportFailure string | Response nat "string + 'p list"

definition raise_for_status :: "nat \<Rightarrow> string option" where
  "raise_for_status status =
     (if 400 \<le> status \<and> status < 600 then Some ''HTTP error status'' else None)"

definition fetch_fake_store_products :: "'p http \<Rightarrow> exc + 'p list" where
  "fetch_fake_store_products response =
     (case response of
        TransportFailure m \<Rightarrow> Inl (Exception (''API fetch failed: '' @ m))
      | Response status body \<Rightarrow>
          (case raise_for_status status of
             Some m \<Rightarrow> Inl (Exception (''API fetch failed: '' @ m))
           | None \<Rightarrow>
               (case body of
                  Inl m \<Rightarrow> Inl (Exception (''API fetch failed: '' @ m))
                | Inr products \<Rightarrow> Inr products)))"

section \<open>The orchestrator (main.py)\<close>

text \<open>The lines \<open>main\<close> prints, in the order it prints them.\<close>

datatype line =
    Starting
  | LoadingExcel | LoadedExcel nat | FailedExcel string
  | FetchingApi | RetrievedProducts nat | FailedApi string
  | Simulating | SimulatedInventory nat | FailedSimulation string
  | Completed

text \<open>\<open>len\<close> of what \<open>load_excel_data\<close> returned: rows of a data frame, keys of a dict.\<close>

fun len :: "'r list excel_data \<Rightarrow> nat" where
  "len (OneSheet df) = length df"
| "len (AllSheets sheets) = length sheets"

text \<open>
  \<open>main()\<close>. Each of the three steps is its own \<open>try ... except Exception\<close>. The local
  variable \<open>products\<close> is bound only when the fetch succeeded (\<open>None\<close> below is "never
  assigned"): the simulation step then reads an unbound local, which raises
  \<open>UnboundLocalError\<close> inside the third \<open>try\<close>. \<open>simulate_inventory\<close> is imported from a
  module that is not among the sources, so it is a parameter here.
\<close>

definition main ::
  "'r list filesystem \<Rightarrow> 'p http \<Rightarrow> ('p list \<Rightarrow> exc + 'i list) \<Rightarrow> line list" where
  "main fs response simulate_inventory =
     (let out1 = [Starting, LoadingExcel] @
            (case load_excel_data fs ''data/Global_Superstore.xlsx'' (SName ''Orders'') of
               Inr excel_data \<Rightarrow> [LoadedExcel (len excel_data)]
             | Inl e \<Rightarrow> [FailedExcel (str e)]);
          (products, out2) =
            (case fetch_fake_store_products response of
               Inr ps \<Rightarrow> (Some ps, out1 @ [FetchingApi, RetrievedProducts (length ps)])
             | Inl e \<Rightarrow> (None, out1 @ [FetchingApi, FailedApi (str e)]));
          out3 = out2 @ [Simulating] @
            (case products of
               None \<Rightarrow>
                 [FailedSimulation (str (UnboundLocalError
                    ''cannot access local variable 'products' where it is not associated with a value''))]
             | Some ps \<Rightarrow>
                 (case simulate_inventory ps of
                    Inr inventory_df \<Rightarrow> [SimulatedInventory (length inventory_df)]
                  | Inl e \<Rightarrow> [FailedSimulation (str e)]))
      in out3 @ [Completed])"

section \<open>The processed data set and its pandas operations\<close>

subsection \<open>Values\<close>

text \<open>
  A \<open>Timestamp\<close> of the two date columns is a calendar day, counted in days from a fixed
  day (the processed file holds dates without a time of day). A cell that is empty in the
  file is \<open>NaT\<close> or \<open>NaN\<close> in the frame: \<open>None\<close> here.
\<close>

type_synonym date = int

text \<open>
  A float64 result of a statistic (mean, median, standard deviation): a finite value,
  \<open>nan\<close> or an infinity. The statistics are exact on finite values here; the two KPIs
  that divide column sums have a model of their own below, with the rounding of every
  operation.
\<close>

datatype float64 = Fin real | NaN | PosInf | NegInf

text \<open>One row of \<open>data/processed_data.csv\<close>, with the columns the two dashboards read.\<close>

record row =
  Order_ID :: "string option"
  Order_Date :: "date option"
  Ship_Date :: "date option"
  Category :: "string option"
  Product_ID :: "string option"
  Quantity_Ordered :: "real option"
  Quantity_Delivered :: "real option"
  Inventory :: "real option"
  Reorder_Level :: "real option"
  Fill_Rate :: "real option"
  Inventory_Turnover :: "real option"
  Inventory_Level :: "real option"
  Stock_Level :: "real option"
  Reorder_Point :: "real option"

type_synonym dataframe = "row list"

text \<open>A row with every cell empty; concrete rows below are updates of it.\<close>

definition empty_row :: row where
  "empty_row = \<lparr>Order_ID = None, Order_Date = None, Ship_Date = None, Category = None,
     Product_ID = None, Quantity_Ordered = None, Quantity_Delivered = None, Inventory = None,
     Reorder_Level = None, Fill_Rate = None, Inventory_Turnover = None,
     Inventory_Level = None, Stock_Level = None, Reorder_Point = None\<rparr>"

subsection \<open>Series\<close>

text \<open>\<open>Series.dropna()\<close>: the values that are present, in order.\<close>

fun dropna :: "'a option list \<Rightarrow> 'a list" where
  "dropna [] = []"
| "dropna (None # xs) = dropna xs"
| "dropna (Some x # xs) = x # dropna xs"

text \<open>
  Elementwise comparison of two cells: a comparison with \<open>NaN\<close> or \<open>NaT\<close> on either side
  is \<open>False\<close>, also for \<open>==\<close>.
\<close>

fun cell_lt :: "'a::linorder option \<Rightarrow> 'a option \<Rightarrow> bool" where
  "cell_lt (Some x) (Some y) = (x < y)"
| "cell_lt _ _ = False"

fun cell_le :: "'a::linorder option \<Rightarrow> 'a option \<Rightarrow> bool" where
  "cell_le (Some x) (Some y) = (x \<le> y)"
| "cell_le _ _ = False"

fun cell_ge :: "'a::linorder option \<Rightarrow> 'a option \<Rightarrow> bool" where
  "cell_ge (Some x) (Some y) = (y \<le> x)"
| "cell_ge _ _ = False"

fun cell_eq :: "'a option \<Rightarrow> 'a \<Rightarrow> bool" where
  "cell_eq (Some x) y = (x = y)"
| "cell_eq None y = False"

text \<open>\<open>Series.min()\<close> and \<open>Series.max()\<close> skip missing values; on no value they are missing.\<close>

definition series_min :: "'a::linorder option list \<Rightarrow> 'a option" where
  "series_min xs = (case dropna xs of [] \<Rightarrow> None | v # vs \<Rightarrow> Some (fold min vs v))"

definition series_max :: "'a::linorder option list \<Rightarrow> 'a option" where
  "series_max xs = (case dropna xs of [] \<Rightarrow> None | v # vs \<Rightarrow> Some (fold max vs v))"

text \<open>\<open>Series.sum()\<close> skips missing values; the sum of no value is 0.\<close>

definition series_sum :: "real option list \<Rightarrow> real" where
  "series_sum xs = sum_list (dropna xs)"

text \<open>\<open>Series.nunique()\<close>: the number of distinct values, missing ones not counted.\<close>

definition nunique :: "'a option list \<Rightarrow> nat" where
  "nunique xs = length (remdups (dropna xs))"

text \<open>\<open>Series.mean()\<close> over the values present; \<open>NaN\<close> when there is none.\<close>

definition series_mean :: "real option list \<Rightarrow> float64" where
  "series_mean xs =
     (let v = dropna xs
      in if v = [] then NaN else Fin (sum_list v / real (length v)))"

text \<open>
  \<open>Series.median()\<close> over the values present: the middle one of the sorted values, the
  mean of the two middle ones when their number is even, \<open>NaN\<close> when there is none.
\<close>

definition series_median :: "real option list \<Rightarrow> float64" where
  "series_median xs =
     (let v = sort (dropna xs); n = length v
      in if n = 0 then NaN
         else if odd n then Fin (v ! (n div 2))
         else Fin ((v ! (n div 2 - 1) + v ! (n div 2)) / 2))"

text \<open>
  \<open>Series.std()\<close> is pandas' sample standard deviation (\<open>ddof=1\<close>, the default, which the
  source does not change): the squared deviations are divided by \<open>n - 1\<close>, and fewer than
  two values give \<open>NaN\<close>.
\<close>

definition series_std :: "real option list \<Rightarrow> float64" where
  "series_std xs =
     (let v = dropna xs; n = length v
      in if n \<le> 1 then NaN
         else (let m = sum_list v / real n
               in Fin (sqrt (sum_list (map (\<lambda>x. (x - m) ^ 2) v) / real (n - 1)))))"

subsection \<open>Rounding\<close>

text \<open>Rounding to the nearest integer, a tie going to the even neighbour.\<close>

definition rint :: "real \<Rightarrow> int" where
  "rint x =
     (let f = \<lfloor>x\<rfloor>; d = x - of_int f
      in if d < 1 / 2 then f
         else if 1 / 2 < d then f + 1
         else if even f then f else f + 1)"

text \<open>\<open>round(x, 1)\<close> of a numpy float: one decimal; \<open>nan\<close> and the infinities stay.\<close>

fun round1 :: "float64 \<Rightarrow> float64" where
  "round1 (Fin x) = Fin (of_int (rint (x * 10)) / 10)"
| "round1 NaN = NaN"
| "round1 PosInf = PosInf"
| "round1 NegInf = NegInf"

subsection \<open>The numpy scalars of the ratio KPIs\<close>

text \<open>
  The fill rate and the inventory turnover of \<open>output.py\<close> divide one column sum by
  another without a guard, so what they show depends on the machine arithmetic: it is
  modelled bit for bit here. A float64 is a non-zero finite double, a zero with its sign,
  an infinity with its sign, or \<open>nan\<close>.
\<close>

datatype sign = Plus | Minus

fun sign_times :: "sign \<Rightarrow> sign \<Rightarrow> sign" where
  "sign_times Plus s = s"
| "sign_times Minus Plus = Minus"
| "sign_times Minus Minus = Plus"

definition sign_of :: "real \<Rightarrow> sign" where
  "sign_of x = (if x < 0 then Minus else Plus)"

datatype ieee = Finite real | Zero sign | Infinity sign | Nan

fun ieee_sign :: "ieee \<Rightarrow> sign" where
  "ieee_sign (Finite x) = sign_of x"
| "ieee_sign (Zero s) = s"
| "ieee_sign (Infinity s) = s"
| "ieee_sign Nan = Plus"

text \<open>The binary exponent of a positive real \<open>x\<close>: the \<open>e\<close> with \<open>2^e \<le> x < 2^(e+1)\<close>.\<close>

function exponent :: "real \<Rightarrow> int" where
  "exponent x =
     (if x \<le> 0 then 0
      else if 2 \<le> x then exponent (x / 2) + 1
      else if x < 1 then exponent (x * 2) - 1
      else 0)"
  by pat_completeness auto
termination
proof (relation "measure (\<lambda>x. 2 * nat \<lceil>1 / x\<rceil> + nat \<lfloor>x\<rfloor>)")
  show "wf (measure (\<lambda>x::real. 2 * nat \<lceil>1 / x\<rceil> + nat \<lfloor>x\<rfloor>))" by simp
next
  fix x :: real
  assume a: "\<not> x \<le> 0" "2 \<le> x"
  have "\<lceil>1 / (x / 2)\<rceil> = 1" using a by (simp add: ceiling_eq_iff)
  moreover have "\<lceil>1 / x\<rceil> = 1" using a by (simp add: ceiling_eq_iff)
  moreover have "\<lfloor>x / 2\<rfloor> < \<lfloor>x\<rfloor>" using a by linarith
  moreover have "0 < \<lfloor>x\<rfloor>" using a by linarith
  ultimately show "(x / 2, x) \<in> measure (\<lambda>x. 2 * nat \<lceil>1 / x\<rceil> + nat \<lfloor>x\<rfloor>)"
    by simp
next
  fix x :: real
  assume a: "\<not> x \<le> 0" "\<not> 2 \<le> x" "x < 1"
  have c: "2 \<le> \<lceil>1 / x\<rceil>" using a by (simp add: le_ceiling_iff field_simps)
  have "1 / (x * 2) \<le> of_int \<lceil>1 / x\<rceil> / 2"
    using a le_of_int_ceiling [of "1 / x"] by (simp add: field_simps)
  then have "\<lceil>1 / (x * 2)\<rceil> \<le> \<lceil>(of_int \<lceil>1 / x\<rceil> :: real) / 2\<rceil>" by (rule ceiling_mono)
  also have "\<dots> \<le> \<lceil>1 / x\<rceil> - 1" using c by linarith
  finally have d: "\<lceil>1 / (x * 2)\<rceil> \<le> \<lceil>1 / x\<rceil> - 1" .
  have e: "\<lfloor>x * 2\<rfloor> \<le> 1" "\<lfloor>x\<rfloor> = 0" using a by linarith+
  have f: "0 < \<lceil>1 / (x * 2)\<rceil>" using a by (simp add: field_simps)
  show "(x * 2, x) \<in> measure (\<lambda>x. 2 * nat \<lceil>1 / x\<rceil> + nat \<lfloor>x\<rfloor>)"
    using c d e f by simp linarith
qed

declare exponent.simps [simp del]

text \<open>
  The float64 nearest to a real, as every float64 operation rounds its exact result
  (round to nearest, ties to even): 53 significant bits, the spacing \<open>2^(-1074)\<close> of the
  subnormal range below \<open>2^(-1022)\<close>, a signed zero when the result rounds to no
  multiple of the spacing, an infinity when it rounds to \<open>2^1024\<close> or beyond.
\<close>

definition binary64 :: "real \<Rightarrow> ieee" where
  "binary64 x =
     (if x = 0 then Zero Plus
      else
        (let q = max (exponent \<bar>x\<bar> - 52) (- 1074);
             m = rint (x / 2 powi q);
             y = of_int m * 2 powi q
         in if m = 0 then Zero (sign_of x)
            else if 2 ^ 1024 \<le> \<bar>y\<bar> then Infinity (sign_of x)
            else Finite y))"

text \<open>
  What \<open>Series.sum()\<close> returns: an \<open>np.int64\<close> for an int64 column, an \<open>np.float64\<close> for a
  float64 column. The int64 sum wraps around; it is the sum of the cells as 64-bit words,
  0 for a column without cells. The float64 sum skips missing cells and is rounded at
  every addition, in an order numpy chooses: it is not computed here, the KPIs below take
  the sums as they come, whatever float64 they are (\<open>0.0\<close> for a column without cells).
\<close>

datatype scalar = I64 "64 word" | F64 ieee

definition int64_sum :: "64 word list \<Rightarrow> scalar" where
  "int64_sum cells = I64 (sum_list cells)"

text \<open>
  The operand of a true division: an \<open>np.int64\<close> is converted to the nearest float64, an
  \<open>np.float64\<close> is itself (a finite value is read as the double it denotes).
\<close>

fun as_float64 :: "scalar \<Rightarrow> ieee" where
  "as_float64 (I64 w) = binary64 (real_of_int (sint w))"
| "as_float64 (F64 (Finite v)) = binary64 v"
| "as_float64 (F64 x) = x"

text \<open>
  \<open>/\<close> and \<open>*\<close> on float64: IEEE 754, as numpy computes them. A zero divisor does not
  raise (numpy warns): \<open>0/0\<close> is \<open>nan\<close> and any other quotient by a zero is an infinity
  whose sign is the product of the signs.
\<close>

fun np_divide :: "ieee \<Rightarrow> ieee \<Rightarrow> ieee" where
  "np_divide Nan b = Nan"
| "np_divide a Nan = Nan"
| "np_divide (Zero s) (Zero t) = Nan"
| "np_divide (Infinity s) (Infinity t) = Nan"
| "np_divide (Finite x) (Finite y) = binary64 (x / y)"
| "np_divide a (Zero t) = Infinity (sign_times (ieee_sign a) t)"
| "np_divide (Infinity s) b = Infinity (sign_times s (ieee_sign b))"
| "np_divide a b = Zero (sign_times (ieee_sign a) (ieee_sign b))"

fun np_multiply :: "ieee \<Rightarrow> ieee \<Rightarrow> ieee" where
  "np_multiply Nan b = Nan"
| "np_multiply a Nan = Nan"
| "np_multiply (Zero s) (Infinity t) = Nan"
| "np_multiply (Infinity s) (Zero t) = Nan"
| "np_multiply (Finite x) (Finite y) = binary64 (x * y)"
| "np_multiply (Infinity s) b = Infinity (sign_times s (ieee_sign b))"
| "np_multiply a (Infinity t) = Infinity (sign_times (ieee_sign a) t)"
| "np_multiply a b = Zero (sign_times (ieee_sign a) (ieee_sign b))"

text \<open>\<open>np.rint\<close>: the nearest integer, ties to even, as a float64 of the same sign.\<close>

fun np_rint :: "ieee \<Rightarrow> ieee" where
  "np_rint (Finite x) = (if rint x = 0 then Zero (sign_of x) else Finite (of_int (rint x)))"
| "np_rint a = a"

text \<open>
  \<open>round(x, 1)\<close> of an \<open>np.float64\<close> is numpy's rounding to one decimal: multiply by 10,
  round to the nearest integer, divide by 10, each step in float64.
\<close>

definition np_round1 :: "ieee \<Rightarrow> ieee" where
  "np_round1 a = np_divide (np_rint (np_multiply a (Finite 10))) (Finite 10)"

subsection \<open>Grouping\<close>

text \<open>
  \<open>df.groupby(key)\<close> with pandas' defaults (\<open>sort=True\<close>, \<open>dropna=True\<close>): one group for
  each key value that occurs, in ascending key order; a row whose key is missing is in no
  group; the rows of a group keep their order.
\<close>

definition groupby :: "(row \<Rightarrow> 'k::linorder option) \<Rightarrow> dataframe \<Rightarrow> ('k \<times> dataframe) list" where
  "groupby key df =
     map (\<lambda>k. (k, filter (\<lambda>r. key r = Some k) df)) (sort (remdups (dropna (map key df))))"

text \<open>\<open>[col].mean().reset_index()\<close> and \<open>[col].sum().reset_index()\<close> of a grouping.\<close>

definition group_mean :: "(row \<Rightarrow> real option) \<Rightarrow> ('k \<times> dataframe) list \<Rightarrow> ('k \<times> float64) list" where
  "group_mean col groups = map (\<lambda>(k, rows). (k, series_mean (map col rows))) groups"

definition group_sum :: "(row \<Rightarrow> real option) \<Rightarrow> ('k \<times> dataframe) list \<Rightarrow> ('k \<times> real) list" where
  "group_sum col groups = map (\<lambda>(k, rows). (k, series_sum (map col rows))) groups"

text \<open>
  \<open>sort_values(by=value, ascending=False)\<close> of such a table: the largest value first. Rows
  of equal value are kept in their order here; pandas does not promise an order for them.
\<close>

definition sort_values_descending :: "('k \<times> real) list \<Rightarrow> ('k \<times> real) list" where
  "sort_values_descending table = sort_key (\<lambda>(k, v). - v) table"

section \<open>dashboard/app.py\<close>

text \<open>The defaults of the date range widget: the first and the last order date.\<close>

definition min_date :: "dataframe \<Rightarrow> date option" where
  "min_date df = series_min (map Order_Date df)"

definition max_date :: "dataframe \<Rightarrow> date option" where
  "max_date df = series_max (map Order_Date df)"

text \<open>
  The mask of lines 25 to 28: both date comparisons, and the category comparison unless
  the category chosen is the \<open>"All"\<close> entry of the select box. The two bounds are what
  the date widget holds, \<open>min_date\<close> and \<open>max_date\<close> unless the user changes them;
  \<open>pd.to_datetime\<close> of a missing bound is missing.
\<close>

definition df_filtered :: "dataframe \<Rightarrow> date option \<Rightarrow> date option \<Rightarrow> string \<Rightarrow> dataframe" where
  "df_filtered df date_lo date_hi selected_category =
     filter (\<lambda>r. cell_ge (Order_Date r) date_lo \<and> cell_le (Order_Date r) date_hi \<and>
                 (if selected_category \<noteq> ''All'' then cell_eq (Category r) selected_category
                  else True)) df"

text \<open>
  \<open>(Ship Date - Order Date).dt.days\<close>: the difference in whole days, missing when either
  date is.
\<close>

fun days_between :: "date option \<Rightarrow> date option \<Rightarrow> real option" where
  "days_between (Some ship) (Some order) = Some (of_int (ship - order))"
| "days_between _ _ = None"

definition lead_times :: "dataframe \<Rightarrow> real option list" where
  "lead_times df = map (\<lambda>r. days_between (Ship_Date r) (Order_Date r)) df"

definition total_fill_rate :: "dataframe \<Rightarrow> float64" where
  "total_fill_rate df = series_mean (map Fill_Rate df)"

definition df_time :: "dataframe \<Rightarrow> (date \<times> float64) list" where
  "df_time df = group_mean Inventory_Level (groupby Order_Date df)"

definition df_category :: "dataframe \<Rightarrow> (string \<times> float64) list" where
  "df_category df = group_mean Fill_Rate (groupby Category df)"

definition df_lead :: "dataframe \<Rightarrow> (date \<times> float64) list" where
  "df_lead df =
     group_mean (\<lambda>r. days_between (Ship_Date r) (Order_Date r)) (groupby Order_Date df)"

text \<open>Line 62: the rows below their reorder point, then the distinct product identifiers.\<close>

definition app_products_at_risk :: "dataframe \<Rightarrow> nat" where
  "app_products_at_risk df =
     nunique (map Product_ID (filter (\<lambda>r. cell_lt (Stock_Level r) (Reorder_Point r)) df))"

definition app_total_products :: "dataframe \<Rightarrow> nat" where
  "app_total_products df = nunique (map Product_ID df)"

section \<open>output.py\<close>

text \<open>Lines 35 to 37: the date filter, then the category filter on its result.\<close>

definition filtered_df :: "dataframe \<Rightarrow> date option \<Rightarrow> date option \<Rightarrow> string \<Rightarrow> dataframe" where
  "filtered_df df start_date end_date category =
     (let by_date = filter (\<lambda>r. cell_ge (Order_Date r) start_date \<and>
                                 cell_le (Order_Date r) end_date) df
      in if category \<noteq> ''All'' then filter (\<lambda>r. cell_eq (Category r) category) by_date
         else by_date)"

definition avg_lead_time :: "dataframe \<Rightarrow> float64" where
  "avg_lead_time df = round1 (series_mean (lead_times df))"

text \<open>
  Lines 43 and 44. The two arguments are the column sums that the line takes of the
  filtered view: \<open>filtered_df["Quantity Delivered"].sum()\<close> and
  \<open>filtered_df["Quantity Ordered"].sum()\<close> for the fill rate, the former and
  \<open>filtered_df["Inventory"].sum()\<close> for the inventory turnover.
\<close>

definition fill_rate :: "scalar \<Rightarrow> scalar \<Rightarrow> ieee" where
  "fill_rate delivered_sum ordered_sum =
     np_round1 (np_multiply (np_divide (as_float64 delivered_sum) (as_float64 ordered_sum))
                            (Finite 100))"


text \<open>Line 45: the sum of a boolean column, that is the number of rows where it is true.\<close>

definition products_at_risk :: "dataframe \<Rightarrow> nat" where
  "products_at_risk df = length (filter (\<lambda>r. cell_lt (Inventory r) (Reorder_Level r)) df)"

definition total_products :: "dataframe \<Rightarrow> nat" where
  "total_products df = nunique (map Product_ID df)"

definition inventory_trend :: "dataframe \<Rightarrow> (date \<times> real) list" where
  "inventory_trend df = group_sum Inventory (groupby Order_Date df)"

definition cat_perf :: "dataframe \<Rightarrow> (string \<times> real) list" where
  "cat_perf df = sort_values_descending (group_sum Quantity_Delivered (groupby Category df))"

section \<open>Concrete inputs\<close>

text \<open>Three file systems: nothing on disk, an unreadable file, a workbook of two sheets.\<close>

definition fs_empty :: "nat list filesystem" where
  "fs_empty = Map.empty"

definition fs_corrupt :: "nat list filesystem" where
  "fs_corrupt = [''data/Global_Superstore.xlsx'' \<mapsto>
                   Corrupt (LibraryError ''BadZipFile'' ''File is not a zip file'')]"

definition fs_superstore :: "nat list filesystem" where
  "fs_superstore = [''data/Global_Superstore.xlsx'' \<mapsto>
                      Workbook [(''Orders'', [1, 2]), (''Returns'', [])]]"

text \<open>Views of the processed data: order rows with only the cells that matter filled in.\<close>

definition two_rows_one_product :: dataframe where
  "two_rows_one_product =
     [empty_row\<lparr>Order_ID := Some ''CA-1'', Product_ID := Some ''P-1'',
                Inventory := Some 1, Reorder_Level := Some 5\<rparr>,
      empty_row\<lparr>Order_ID := Some ''CA-2'', Product_ID := Some ''P-1'',
                Inventory := Some 2, Reorder_Level := Some 5\<rparr>]"

definition undated_order :: dataframe where
  "undated_order =
     [empty_row\<lparr>Order_ID := Some ''CA-1'', Order_Date := Some 19000,
                Category := Some ''Furniture''\<rparr>,
      empty_row\<lparr>Order_ID := Some ''CA-2'', Category := Some ''Technology''\<rparr>]"

definition uncategorised_order :: dataframe where
  "uncategorised_order =
     [empty_row\<lparr>Order_ID := Some ''CA-1'', Order_Date := Some 19000,
                Category := Some ''Furniture''\<rparr>,
      empty_row\<lparr>Order_ID := Some ''CA-2'', Order_Date := Some 19010\<rparr>]"

definition shipped_after_3_days :: row where
  "shipped_after_3_days =
     empty_row\<lparr>Order_ID := Some ''CA-1'', Order_Date := Some 19000, Ship_Date := Some 19003\<rparr>"

definition one_unshipped :: dataframe where
  "one_unshipped =
     [empty_row\<lparr>Order_ID := Some ''CA-1'', Order_Date := Some 19000, Ship_Date := Some 19003\<rparr>,
      empty_row\<lparr>Order_ID := Some ''CA-2'', Order_Date := Some 19001\<rparr>,
      empty_row\<lparr>Order_ID := Some ''CA-3'', Order_Date := Some 19002, Ship_Date := Some 19007\<rparr>]"

definition delivered_by_category :: dataframe where
  "delivered_by_category =
     [empty_row\<lparr>Order_ID := Some ''CA-1'', Order_Date := Some 19000,
                Category := Some ''Furniture'', Quantity_Delivered := Some 1\<rparr>,
      empty_row\<lparr>Order_ID := Some ''CA-2'', Order_Date := Some 19000,
                Category := Some ''Technology'', Quantity_Delivered := Some 2\<rparr>]"

section \<open>Properties of the source adapters\<close>

text \<open>
  Claim C9. The tabular-file adapter fails with the error for an unavailable source (in the
  code, \<open>FileNotFoundError\<close>) when the path does not exist; when reading the file raises,
  it fails with an error of its own that wraps the cause (in the code, a plain \<open>Exception\<close>
  whose message ends with the message of the cause); and without a sheet selector it
  returns every sheet of the workbook, keyed by sheet name.
\<close>

theorem load_excel_data_contract:
  "(\<not> path_exists fs1 p1 \<longrightarrow>
      load_excel_data fs1 p1 sel1 = Inl (FileNotFoundError (''File not found: '' @ p1)))
   \<and> (path_exists fs2 p2 \<and> read_excel fs2 p2 (if truthy sel2 then sel2 else SNone) = Inl e \<longrightarrow>
      load_excel_data fs2 p2 sel2 = Inl (Exception (''Error loading Excel file: '' @ str e)))
   \<and> (fs3 p3 = Some (Workbook sheets) \<longrightarrow>
      load_excel_data fs3 p3 SNone = Inr (AllSheets sheets))"
  by (simp add: load_excel_data_def path_exists_def read_excel_def)

theorem load_excel_data_contract_witness:
  "(\<not> path_exists fs_empty ''data/Global_Superstore.xlsx''
    \<and> load_excel_data fs_empty ''data/Global_Superstore.xlsx'' (SName ''Orders'')
        = Inl (FileNotFoundError ''File not found: data/Global_Superstore.xlsx''))
   \<and> (path_exists fs_corrupt ''data/Global_Superstore.xlsx''
    \<and> read_excel fs_corrupt ''data/Global_Superstore.xlsx''
          (if truthy (SName ''Orders'') then SName ''Orders'' else SNone)
        = Inl (LibraryError ''BadZipFile'' ''File is not a zip file'')
    \<and> load_excel_data fs_corrupt ''data/Global_Superstore.xlsx'' (SName ''Orders'')
        = Inl (Exception ''Error loading Excel file: File is not a zip file''))
   \<and> (fs_superstore ''data/Global_Superstore.xlsx''
        = Some (Workbook [(''Orders'', [1, 2]), (''Returns'', [])])
    \<and> load_excel_data fs_superstore ''data/Global_Superstore.xlsx'' SNone
        = Inr (AllSheets [(''Orders'', [1, 2]), (''Returns'', [])]))"
  using load_excel_data_contract
    [of fs_empty "''data/Global_Superstore.xlsx''" "SName ''Orders''"
        fs_corrupt "''data/Global_Superstore.xlsx''" "SName ''Orders''"
        "LibraryError ''BadZipFile'' ''File is not a zip file''"
        fs_superstore "''data/Global_Superstore.xlsx''" "[(''Orders'', [1, 2]), (''Returns'', [])]"]
  by (simp add: path_exists_def read_excel_def fs_empty_def fs_corrupt_def fs_superstore_def)

text \<open>
  Claim C10. A sheet selector that is not \<open>None\<close> but counts as false in Python (the
  index \<open>0\<close> and the empty string are the only ones among names and indices) is treated
  as if no selector were given: the adapter returns what it returns for \<open>None\<close>, which for
  a workbook is all of its sheets keyed by name, not the one sheet selected.
\<close>

theorem falsy_selector_reads_all_sheets:
  "sel \<noteq> SNone \<and> \<not> truthy sel \<longrightarrow>
     (sel = SIndex 0 \<or> sel = SName [])
     \<and> load_excel_data fs p sel = load_excel_data fs p SNone
     \<and> (\<forall>sheets. fs p = Some (Workbook sheets) \<longrightarrow>
           load_excel_data fs p sel = Inr (AllSheets sheets))"
  by (cases sel) (simp_all add: load_excel_data_def path_exists_def read_excel_def)

theorem falsy_selector_reads_all_sheets_witness:
  "SIndex 0 \<noteq> SNone \<and> \<not> truthy (SIndex 0)
   \<and> fs_superstore ''data/Global_Superstore.xlsx''
       = Some (Workbook [(''Orders'', [1, 2]), (''Returns'', [])])
   \<and> load_excel_data fs_superstore ''data/Global_Superstore.xlsx'' (SIndex 0)
       = Inr (AllSheets [(''Orders'', [1, 2]), (''Returns'', [])])
   \<and> read_excel fs_superstore ''data/Global_Superstore.xlsx'' (SIndex 0)
       = Inr (OneSheet [1, 2])"
  using falsy_selector_reads_all_sheets
    [of "SIndex 0" fs_superstore "''data/Global_Superstore.xlsx''"]
  by (simp add: read_excel_def load_excel_data_def path_exists_def fs_superstore_def)

section \<open>Properties of the orchestrator\<close>

text \<open>
  Whatever the three sources do, \<open>main\<close> returns, and it has printed the announcement of
  every step, one outcome line after each, and the closing line.
\<close>

lemma main_always_completes:
  "\<exists>a b c. main fs response simulate_inventory =
     [Starting, LoadingExcel, a, FetchingApi, b, Simulating, c, Completed]"
  by (simp add: main_def Let_def split: sum.splits option.splits prod.splits)

text \<open>
  The lines of the catalog and simulation steps do not depend on the workbook, and the
  lines up to the catalog step do not depend on the simulation.
\<close>

lemma main_excel_isolated:
  "drop 3 (main fs response simulate_inventory) = drop 3 (main fs' response simulate_inventory)"
  by (simp add: main_def Let_def split: sum.splits option.splits prod.splits)

lemma main_simulation_isolated:
  "take 5 (main fs response simulate_inventory) = take 5 (main fs response simulate_inventory')"
  by (simp add: main_def Let_def split: sum.splits option.splits prod.splits)

text \<open>
  After a failed catalog request the simulation step reports a failure, whatever
  \<open>simulate_inventory\<close> would return.
\<close>

lemma main_fetch_failure_fails_simulation:
  assumes "fetch_fake_store_products response = Inl e"
  shows "main fs response simulate_inventory ! 6 = FailedSimulation
     ''cannot access local variable 'products' where it is not associated with a value''"
  using assms by (simp add: main_def Let_def split: sum.splits)

text \<open>
  Claim C7, at the input where it fails. The workbook loads, the catalog request fails,
  and the inventory simulation would succeed on every product list. The failed request
  is caught and reported and the run completes, but the simulation is never called:
  \<open>products\<close> was not assigned, so the third step fails on reading it and reports a
  failure of the simulation.
\<close>

theorem main_api_failure_aborts_simulation:
  "main fs_superstore
        (TransportFailure ''connection refused'' :: nat http)
        (\<lambda>products. Inr (map (\<lambda>p. (p, 50 :: nat)) products))
   = [Starting, LoadingExcel, LoadedExcel 2,
      FetchingApi, FailedApi ''API fetch failed: connection refused'',
      Simulating,
      FailedSimulation
        ''cannot access local variable 'products' where it is not associated with a value'',
      Completed]"
  by (simp add: main_def load_excel_data_def path_exists_def read_excel_def
        fetch_fake_store_products_def fs_superstore_def)

section \<open>Properties of the series operations\<close>

lemma set_dropna: "set (dropna xs) = {x. Some x \<in> set xs}"
  by (induction xs rule: dropna.induct) auto

lemma nunique_card: "nunique xs = card {x. Some x \<in> set xs}"
  by (simp add: nunique_def length_remdups_card_conv set_dropna)

lemma series_min_le:
  assumes "Some x \<in> set xs"
  shows "\<exists>m. series_min xs = Some m \<and> m \<le> x"
proof -
  from assms have mem: "x \<in> set (dropna xs)" by (simp add: set_dropna)
  then obtain v vs where v: "dropna xs = v # vs" by (cases "dropna xs") auto
  have "fold min vs v = Min (set (v # vs))" by (simp only: Min.set_eq_fold)
  moreover have "Min (set (v # vs)) \<le> x" using mem v by (intro Min_le) auto
  ultimately show ?thesis by (simp add: series_min_def v)
qed

lemma series_max_ge:
  assumes "Some x \<in> set xs"
  shows "\<exists>m. series_max xs = Some m \<and> x \<le> m"
proof -
  from assms have mem: "x \<in> set (dropna xs)" by (simp add: set_dropna)
  then obtain v vs where v: "dropna xs = v # vs" by (cases "dropna xs") auto
  have "fold max vs v = Max (set (v # vs))" by (simp only: Max.set_eq_fold)
  moreover have "x \<le> Max (set (v # vs))" using mem v by (intro Max_ge) auto
  ultimately show ?thesis by (simp add: series_max_def v)
qed

lemma rint_close: "\<bar>of_int (rint x) - x\<bar> \<le> 1 / 2"
proof -
  have "of_int \<lfloor>x\<rfloor> \<le> x" "x < of_int \<lfloor>x\<rfloor> + 1" by linarith+
  then show ?thesis by (auto simp: rint_def Let_def)
qed

lemma round1_close:
  "\<exists>n. round1 (Fin x) = Fin (of_int n / 10) \<and> \<bar>of_int n / 10 - x\<bar> \<le> 1 / 20"
proof -
  have "\<bar>of_int (rint (x * 10)) - x * 10\<bar> \<le> 1 / 2" by (rule rint_close)
  then have "\<bar>of_int (rint (x * 10)) / 10 - x\<bar> \<le> 1 / 20"
    by (simp add: abs_le_iff field_simps)
  then show ?thesis by auto
qed

lemma groupby_keys: "map fst (groupby key df) = sort (remdups (dropna (map key df)))"
  by (simp add: groupby_def comp_def)

lemma group_mean_keys: "map fst (group_mean col groups) = map fst groups"
  by (induction groups) (auto simp: group_mean_def)

lemma group_sum_keys: "map fst (group_sum col groups) = map fst groups"
  by (induction groups) (auto simp: group_sum_def)

lemma groupby_keys_ascending:
  "sorted_wrt (<) (map fst (groupby key df))
   \<and> set (map fst (groupby key df)) = set (dropna (map key df))"
  by (simp add: groupby_keys strict_sorted_iff)

lemma sort_values_descending_keys:
  "distinct (map fst (sort_values_descending table)) = distinct (map fst table)
   \<and> set (map fst (sort_values_descending table)) = set (map fst table)"
proof -
  have "mset (map fst (sort_values_descending table)) = mset (map fst table)"
    by (simp add: sort_values_descending_def)
  then show ?thesis
    by (metis mset_eq_imp_distinct_iff mset_eq_setD)
qed

lemma sort_values_descending_sorted:
  "sorted_wrt (\<ge>) (map snd (sort_values_descending table))"
proof -
  have "sorted (map (\<lambda>(k, v). - v) (sort_values_descending table))"
    unfolding sort_values_descending_def by (rule sorted_sort_key)
  then show ?thesis
    by (simp add: sorted_wrt_map case_prod_unfold)
qed

section \<open>Properties of the filter\<close>

lemma in_full_range:
  assumes "r \<in> set df"
  shows "(cell_ge (Order_Date r) (min_date df) \<and> cell_le (Order_Date r) (max_date df))
         = (Order_Date r \<noteq> None)"
proof (cases "Order_Date r")
  case None
  then show ?thesis by simp
next
  case (Some d)
  with assms have "Some d \<in> set (map Order_Date df)" by force
  from series_min_le [OF this] series_max_ge [OF this]
  show ?thesis by (auto simp: min_date_def max_date_def Some)
qed

text \<open>The two dashboards filter alike: one mask, or the date filter and then the category.\<close>

lemma filtered_df_eq_df_filtered:
  "filtered_df df lo hi c = df_filtered df lo hi c"
  by (cases "c = ''All''") (auto simp: filtered_df_def df_filtered_def Let_def intro: filter_cong)

text \<open>
  Claim C3, as stated, fails: of two orders, the one without an order date is not in the
  view filtered by the full date range and \<open>"All"\<close>, since no comparison with a missing date
  holds.
\<close>

theorem full_range_filter_drops_undated_row:
  "df_filtered undated_order (min_date undated_order) (max_date undated_order) ''All''
     \<noteq> undated_order"
  by (simp add: df_filtered_def min_date_def max_date_def series_min_def series_max_def
        undated_order_def empty_row_def)

text \<open>
  Claim C3, amended. Filtering a record set by the range from its first to its last order
  date and the \<open>"All"\<close> category returns exactly its records that have an order date, in
  their order, whatever their category cell holds; so it returns the whole set when no
  record lacks its order date.
\<close>

theorem full_range_filter_keeps_dated_rows:
  "df_filtered df (min_date df) (max_date df) ''All'' = filter (\<lambda>r. Order_Date r \<noteq> None) df
   \<and> filtered_df df (min_date df) (max_date df) ''All'' = filter (\<lambda>r. Order_Date r \<noteq> None) df
   \<and> ((\<forall>r \<in> set df. Order_Date r \<noteq> None) \<longrightarrow>
        df_filtered df (min_date df) (max_date df) ''All'' = df
        \<and> filtered_df df (min_date df) (max_date df) ''All'' = df)"
proof -
  have a: "df_filtered df (min_date df) (max_date df) ''All''
             = filter (\<lambda>r. Order_Date r \<noteq> None) df"
    unfolding df_filtered_def by (rule filter_cong) (simp_all add: in_full_range)
  have b: "filtered_df df (min_date df) (max_date df) ''All''
             = filter (\<lambda>r. Order_Date r \<noteq> None) df"
    by (simp only: filtered_df_eq_df_filtered a)
  have c: "(\<forall>r \<in> set df. Order_Date r \<noteq> None) \<longrightarrow> filter (\<lambda>r. Order_Date r \<noteq> None) df = df"
    by (simp add: filter_id_conv)
  from a b c show ?thesis by simp
qed

theorem full_range_filter_keeps_dated_rows_witness:
  "length uncategorised_order = 2
   \<and> Order_Date (uncategorised_order ! 0) \<noteq> None
   \<and> Order_Date (uncategorised_order ! 1) \<noteq> None
   \<and> Category (uncategorised_order ! 1) = None
   \<and> min_date uncategorised_order = Some 19000 \<and> max_date uncategorised_order = Some 19010
   \<and> df_filtered uncategorised_order (Some 19000) (Some 19010) ''All'' = uncategorised_order
   \<and> filtered_df uncategorised_order (Some 19000) (Some 19010) ''All'' = uncategorised_order"
  using full_range_filter_keeps_dated_rows [of uncategorised_order]
  by (simp add: min_date_def max_date_def series_min_def series_max_def
        uncategorised_order_def empty_row_def)

section \<open>Properties of the metrics\<close>

subsection \<open>Fill rate and inventory turnover\<close>





















text \<open>
  The arithmetic at work on two views of int64 columns. 23 delivered of 80 ordered: the
  quotient times 100 is the double just below 28.75, and the fill rate is the double
  nearest to 28.7. Quantities delivered that add up beyond the int64 range: the sum wraps
  to \<open>-2^63\<close> and the fill rate is negative.
\<close>

lemma fill_rate_23_of_80:
  "np_multiply (np_divide (as_float64 (int64_sum [11, 12])) (as_float64 (int64_sum [40, 40])))
               (Finite 100)
     = Finite (8092405580431359 / 2 ^ 48)
   \<and> fill_rate (int64_sum [11, 12]) (int64_sum [40, 40]) = Finite (8078331831595827 / 2 ^ 48)"
  by (simp add: fill_rate_def int64_sum_def binary64_def exponent.simps rint_def np_round1_def
        Let_def sign_of_def)

lemma int64_sum_wraps:
  "int64_sum [9223372036854775807, 1] = I64 (- 9223372036854775808)
   \<and> fill_rate (int64_sum [9223372036854775807, 1]) (int64_sum [2])
       = Finite (- 461168601842738790400)"
  by (simp add: fill_rate_def int64_sum_def binary64_def exponent.simps rint_def np_round1_def
        Let_def sign_of_def)




text \<open>The fill rate shown by \<open>dashboard/app.py\<close> is a mean of a column, \<open>nan\<close> on no row.\<close>

lemma total_fill_rate_no_rows: "total_fill_rate [] = NaN"
  by (simp add: total_fill_rate_def series_mean_def)

subsection \<open>Products at risk\<close>

text \<open>
  In \<open>dashboard/app.py\<close> the count is the number of distinct product identifiers on rows
  whose stock level is below the reorder point, and it is at most the number of distinct
  product identifiers of the view.
\<close>

lemma app_products_at_risk_distinct:
  "app_products_at_risk df =
     card {p. \<exists>r \<in> set df. Product_ID r = Some p \<and> cell_lt (Stock_Level r) (Reorder_Point r)}"
proof -
  have "{x. Some x \<in> set (map Product_ID
              (filter (\<lambda>r. cell_lt (Stock_Level r) (Reorder_Point r)) df))}
      = {p. \<exists>r \<in> set df. Product_ID r = Some p \<and> cell_lt (Stock_Level r) (Reorder_Point r)}"
    by force
  then show ?thesis by (simp add: app_products_at_risk_def nunique_card)
qed

lemma app_products_at_risk_le_total:
  "app_products_at_risk df \<le> app_total_products df"
proof -
  have fin: "finite {x. Some x \<in> set (map Product_ID df)}"
    using finite_set [of "dropna (map Product_ID df)"] by (simp only: set_dropna)
  have "{x. Some x \<in> set (map Product_ID
              (filter (\<lambda>r. cell_lt (Stock_Level r) (Reorder_Point r)) df))}
        \<subseteq> {x. Some x \<in> set (map Product_ID df)}"
    by auto
  then show ?thesis
    unfolding app_products_at_risk_def app_total_products_def nunique_card
    by (rule card_mono [OF fin])
qed

text \<open>
  Claim C2, at the input where \<open>output.py\<close> fails it. Two rows of the same product, both
  with an inventory below the reorder level: the products-at-risk count of \<open>output.py\<close> is
  2, the number of rows, while the view holds one distinct product.
\<close>

theorem products_at_risk_counts_rows:
  "products_at_risk two_rows_one_product = 2 \<and> total_products two_rows_one_product = 1"
  by (simp add: products_at_risk_def total_products_def nunique_def
        two_rows_one_product_def empty_row_def)

subsection \<open>Lead time\<close>

lemma dropna_lead_times:
  "dropna (lead_times df) =
   dropna (lead_times (filter (\<lambda>r. Ship_Date r \<noteq> None \<and> Order_Date r \<noteq> None) df))"
proof (induction df)
  case Nil
  show ?case by (simp add: lead_times_def)
next
  case (Cons r df)
  then show ?case
    by (cases "Ship_Date r"; cases "Order_Date r") (simp_all add: lead_times_def)
qed

text \<open>
  Claim C5. The lead time of an order with both dates is its ship date minus its order
  date in whole days, and the mean, the median and the standard deviation of the lead
  times of a view are those of the view without the orders that miss a date: such an
  order is left out, not counted as zero.
\<close>

theorem lead_times_exclude_missing_dates:
  "(\<forall>i<length df. \<forall>s d. Ship_Date (df ! i) = Some s \<and> Order_Date (df ! i) = Some d \<longrightarrow>
        lead_times df ! i = Some (of_int (s - d)))
   \<and> series_mean (lead_times df) =
       series_mean (lead_times (filter (\<lambda>r. Ship_Date r \<noteq> None \<and> Order_Date r \<noteq> None) df))
   \<and> series_median (lead_times df) =
       series_median (lead_times (filter (\<lambda>r. Ship_Date r \<noteq> None \<and> Order_Date r \<noteq> None) df))
   \<and> series_std (lead_times df) =
       series_std (lead_times (filter (\<lambda>r. Ship_Date r \<noteq> None \<and> Order_Date r \<noteq> None) df))
   \<and> avg_lead_time df =
       avg_lead_time (filter (\<lambda>r. Ship_Date r \<noteq> None \<and> Order_Date r \<noteq> None) df)"
proof -
  have rows: "\<forall>i<length df. \<forall>s d.
        Ship_Date (df ! i) = Some s \<and> Order_Date (df ! i) = Some d \<longrightarrow>
        lead_times df ! i = Some (of_int (s - d))"
    by (simp add: lead_times_def)
  note eq = dropna_lead_times [of df]
  have "series_mean (lead_times df) =
       series_mean (lead_times (filter (\<lambda>r. Ship_Date r \<noteq> None \<and> Order_Date r \<noteq> None) df))"
    unfolding series_mean_def eq ..
  moreover have "series_median (lead_times df) =
       series_median (lead_times (filter (\<lambda>r. Ship_Date r \<noteq> None \<and> Order_Date r \<noteq> None) df))"
    unfolding series_median_def eq ..
  moreover have "series_std (lead_times df) =
       series_std (lead_times (filter (\<lambda>r. Ship_Date r \<noteq> None \<and> Order_Date r \<noteq> None) df))"
    unfolding series_std_def eq ..
  moreover have "avg_lead_time df =
       avg_lead_time (filter (\<lambda>r. Ship_Date r \<noteq> None \<and> Order_Date r \<noteq> None) df)"
    unfolding avg_lead_time_def series_mean_def eq ..
  ultimately show ?thesis using rows by blast
qed

theorem lead_times_exclude_missing_dates_witness:
  "(0 < length one_unshipped
      \<and> Ship_Date (one_unshipped ! 0) = Some 19003 \<and> Order_Date (one_unshipped ! 0) = Some 19000
      \<and> lead_times one_unshipped ! 0 = Some (of_int (19003 - 19000)))
   \<and> lead_times one_unshipped = [Some 3, None, Some 5]
   \<and> series_mean (lead_times one_unshipped) = Fin 4
   \<and> series_median (lead_times one_unshipped) = Fin 4
   \<and> series_std (lead_times one_unshipped) = Fin (sqrt 2)
   \<and> avg_lead_time one_unshipped = Fin 4"
  using lead_times_exclude_missing_dates [of one_unshipped]
  by (simp add: lead_times_def series_mean_def series_median_def series_std_def
        avg_lead_time_def rint_def one_unshipped_def empty_row_def power2_eq_square)

text \<open>
  Claim C4, as stated, fails: for the single order shipped 3 days after it was placed,
  the standard deviation of the lead times is not 0 (it is \<open>nan\<close>, the sample standard
  deviation of one value).
\<close>

theorem single_order_std_not_zero:
  "Order_Date shipped_after_3_days = Some 19000
   \<and> Ship_Date shipped_after_3_days = Some (19000 + 3)
   \<and> series_std (lead_times [shipped_after_3_days]) \<noteq> Fin 0"
  by (simp add: series_std_def lead_times_def shipped_after_3_days_def empty_row_def)

text \<open>
  Claim C4, amended. For a view of exactly one order whose ship date is its order date
  plus 3 days, the mean and the median of the lead times are 3 and the standard deviation
  is undefined (\<open>nan\<close>).
\<close>

theorem single_order_std_is_nan:
  "Order_Date r = Some d \<and> Ship_Date r = Some (d + 3) \<longrightarrow>
     series_mean (lead_times [r]) = Fin 3
     \<and> series_median (lead_times [r]) = Fin 3
     \<and> series_std (lead_times [r]) = NaN"
  by (simp add: series_mean_def series_median_def series_std_def lead_times_def)

theorem single_order_std_is_nan_witness:
  "Order_Date shipped_after_3_days = Some 19000
   \<and> Ship_Date shipped_after_3_days = Some (19000 + 3)
   \<and> series_mean (lead_times [shipped_after_3_days]) = Fin 3
   \<and> series_median (lead_times [shipped_after_3_days]) = Fin 3
   \<and> series_std (lead_times [shipped_after_3_days]) = NaN"
  using single_order_std_is_nan [of shipped_after_3_days 19000]
  by (simp add: shipped_after_3_days_def empty_row_def)

section \<open>Properties of the rollups\<close>

text \<open>
  Claim C6, as stated, fails: the category rollup of \<open>output.py\<close> puts the category with
  the larger total first, so its bucket keys are not in ascending order.
\<close>

theorem cat_perf_not_key_ordered:
  "cat_perf delivered_by_category = [(''Technology'', 2), (''Furniture'', 1)]
   \<and> \<not> sorted (map fst (cat_perf delivered_by_category))"
  by (simp add: cat_perf_def sort_values_descending_def group_sum_def groupby_def series_sum_def
        delivered_by_category_def empty_row_def)

text \<open>
  Claim C6, amended. The rollups by order date (\<open>df_time\<close>, \<open>df_lead\<close>,
  \<open>inventory_trend\<close>) and the category rollup of \<open>dashboard/app.py\<close> (\<open>df_category\<close>) are
  sequences of (bucket key, value) pairs in strictly ascending key order whose keys are
  exactly the keys that occur in the view, so no bucket without a record is emitted. The
  category rollup of \<open>output.py\<close> (\<open>cat_perf\<close>) has exactly the categories that occur, each
  once, and is ordered by its value, the total quantity delivered, largest first.
\<close>

theorem rollups_ordering:
  "(sorted_wrt (<) (map fst (df_time df))
      \<and> set (map fst (df_time df)) = set (dropna (map Order_Date df)))
   \<and> (sorted_wrt (<) (map fst (df_lead df))
      \<and> set (map fst (df_lead df)) = set (dropna (map Order_Date df)))
   \<and> (sorted_wrt (<) (map fst (df_category df))
      \<and> set (map fst (df_category df)) = set (dropna (map Category df)))
   \<and> (sorted_wrt (<) (map fst (inventory_trend df))
      \<and> set (map fst (inventory_trend df)) = set (dropna (map Order_Date df)))
   \<and> (sorted_wrt (\<ge>) (map snd (cat_perf df)) \<and> distinct (map fst (cat_perf df))
      \<and> set (map fst (cat_perf df)) = set (dropna (map Category df)))"
proof -
  have a: "sorted_wrt (<) (map fst (df_time df))
      \<and> set (map fst (df_time df)) = set (dropna (map Order_Date df))"
    unfolding df_time_def group_mean_keys by (rule groupby_keys_ascending)
  have b: "sorted_wrt (<) (map fst (df_lead df))
      \<and> set (map fst (df_lead df)) = set (dropna (map Order_Date df))"
    unfolding df_lead_def group_mean_keys by (rule groupby_keys_ascending)
  have c: "sorted_wrt (<) (map fst (df_category df))
      \<and> set (map fst (df_category df)) = set (dropna (map Category df))"
    unfolding df_category_def group_mean_keys by (rule groupby_keys_ascending)
  have d: "sorted_wrt (<) (map fst (inventory_trend df))
      \<and> set (map fst (inventory_trend df)) = set (dropna (map Order_Date df))"
    unfolding inventory_trend_def group_sum_keys by (rule groupby_keys_ascending)
  have e1: "sorted_wrt (\<ge>) (map snd (cat_perf df))"
    unfolding cat_perf_def by (rule sort_values_descending_sorted)
  have keys: "map fst (group_sum Quantity_Delivered (groupby Category df))
                = sort (remdups (dropna (map Category df)))"
    by (simp only: group_sum_keys groupby_keys)
  have e2: "distinct (map fst (cat_perf df))
      \<and> set (map fst (cat_perf df)) = set (dropna (map Category df))"
    unfolding cat_perf_def
    using sort_values_descending_keys [of "group_sum Quantity_Delivered (groupby Category df)"]
    by (simp add: keys)
  from a b c d e1 e2 show ?thesis by blast
qed

end
